theory Spec2Isabelle
  imports Complex_Main "HOL-Library.Word"
begin

unbundle bit_operations_syntax

section \<open>Machine types\<close>

text \<open>
  The two source files are \<^verbatim>\<open>src/coreclr/vm/gcheaputilities.h\<close> (C++) and
  \<^verbatim>\<open>src/coreclr/nativeaot/Runtime/arm64/AsmMacros.h\<close> (ARM64 assembler macros).
  Pointers, \<^verbatim>\<open>size_t\<close> and the ARM64 registers are 64-bit words whose arithmetic
  wraps around; \<^verbatim>\<open>uint8_t\<close> is an 8-bit word, \<^verbatim>\<open>DWORD\<close> and \<^verbatim>\<open>int\<close> are 32-bit
  words (\<^verbatim>\<open>int\<close> is read with \<open>sint\<close>). The null pointer is the word \<open>0\<close>.
\<close>

type_synonym addr = "64 word"
type_synonym size_t = "64 word"
type_synonym uint8_t = "8 word"
type_synonym DWORD = "32 word"
type_synonym int32 = "32 word"

text \<open>
  \<^verbatim>\<open>assert\<close> stops the process in a checked (debug) build and is compiled out of a
  release build. Every function that asserts takes the build flavour as its first
  argument \<open>checked\<close> and returns \<open>Inl AssertionFailed\<close> where the assertion stops it.
\<close>

datatype error = AssertionFailed

section \<open>Allocation context with randomized sampling\<close>

definition SamplingDistributionMean :: DWORD where
  "SamplingDistributionMean = 100 * 1024"

text \<open>
  \<^verbatim>\<open>gc_alloc_context\<close> is declared in \<^verbatim>\<open>gcinterface.h\<close>, which is not among the
  sources; the record has the two fields that \<^verbatim>\<open>gcheaputilities.h\<close> reads.
\<close>

record gc_alloc_context =
  alloc_ptr :: addr
  alloc_limit :: addr

record ee_alloc_context =
  combined_limit :: addr
  gc_alloc_context :: gc_alloc_context

text \<open>
  Modelled from the spec: \<^verbatim>\<open>gc_alloc_context::init\<close> (in \<^verbatim>\<open>gcinterface.h\<close>, not among
  the sources). The spec says: "\<^verbatim>\<open>initialize()\<close> zeroes the window and limits".
\<close>

definition gc_alloc_context_init :: "gc_alloc_context \<Rightarrow> gc_alloc_context" where
  "gc_alloc_context_init g = g\<lparr>alloc_ptr := 0, alloc_limit := 0\<rparr>"

text \<open>\<^verbatim>\<open>ee_alloc_context::init\<close>.\<close>

definition init :: "ee_alloc_context \<Rightarrow> ee_alloc_context" where
  "init ctx =
     (let ctx1 = ctx\<lparr>combined_limit := 0\<rparr>
      in ctx1\<lparr>gc_alloc_context := gc_alloc_context_init (gc_alloc_context ctx1)\<rparr>)"

text \<open>
  Modelled from the spec: the \<^verbatim>\<open>Min\<close> helper of the runtime's utility headers (not among
  the sources), applied to two pointers. The spec says:
  "\<^verbatim>\<open>combined_limit = min(candidate, alloc_limit)\<close>", and the comment on the field in
  \<^verbatim>\<open>gcheaputilities.h\<close> says that \<^verbatim>\<open>combined_limit\<close> is the minimum of \<^verbatim>\<open>alloc_limit\<close>
  and the sampling limit. Pointers compare as unsigned addresses.
\<close>

definition Min_ptr :: "addr \<Rightarrow> addr \<Rightarrow> addr" where
  "Min_ptr v1 v2 = (if v1 < v2 then v1 else v2)"

text \<open>
  The floating-point arithmetic of \<^verbatim>\<open>ComputeGeometricRandom\<close>. The type \<^verbatim>\<open>double\<close> is
  any type \<open>'d\<close>, and the operations the function applies to it are the fields of a
  record: the conversion of an integer to \<^verbatim>\<open>double\<close> (of the literal \<^verbatim>\<open>1\<close> and of the
  \<^verbatim>\<open>DWORD\<close> constant), the subtraction, the negation, the multiplication, the
  \<^verbatim>\<open>log\<close> of \<^verbatim>\<open>math.h\<close>, and the conversion \<^verbatim>\<open>(int)\<close>, which is undefined (\<open>None\<close>)
  when the value does not fit an \<^verbatim>\<open>int\<close>. What is proved for every such record holds
  for the arithmetic of the machine.
\<close>

record 'd double_arith =
  fl_of_int :: "int \<Rightarrow> 'd"
  fl_sub :: "'d \<Rightarrow> 'd \<Rightarrow> 'd"
  fl_neg :: "'d \<Rightarrow> 'd"
  fl_mul :: "'d \<Rightarrow> 'd \<Rightarrow> 'd"
  fl_log :: "'d \<Rightarrow> 'd"
  fl_to_int :: "'d \<Rightarrow> int32 option"

text \<open>
  \<^verbatim>\<open>ee_alloc_context::ComputeGeometricRandom\<close>. \<^verbatim>\<open>CLRRandom\<close> is not among the
  sources: the generator state is a value of any type \<open>'r\<close> and its method
  \<^verbatim>\<open>NextDouble\<close> is the parameter \<open>NextDouble\<close>, which returns the number drawn and the
  generator's next state.
\<close>

definition ComputeGeometricRandom ::
  "'d double_arith \<Rightarrow> ('r \<Rightarrow> 'd \<times> 'r) \<Rightarrow> 'r \<Rightarrow> int32 option \<times> 'r" where
  "ComputeGeometricRandom fl NextDouble pRandomizer =
     (let (probability, pRandomizer') = NextDouble pRandomizer;
          threshold =
            fl_to_int fl
              (fl_mul fl (fl_neg fl (fl_log fl (fl_sub fl (fl_of_int fl 1) probability)))
                         (fl_of_int fl (uint SamplingDistributionMean)))
      in (threshold, pRandomizer'))"

text \<open>
  \<^verbatim>\<open>ee_alloc_context::UpdateCombinedLimit(bool samplingEnabled, CLRRandom* pRandom)\<close>.
  Adding an \<^verbatim>\<open>int\<close> to a \<^verbatim>\<open>uint8_t*\<close> sign-extends the \<^verbatim>\<open>int\<close> to pointer width
  (\<open>scast\<close>); the addition wraps around at \<open>2 ^ 64\<close>. The result is \<open>None\<close> when the
  conversion to \<^verbatim>\<open>int\<close> in \<open>ComputeGeometricRandom\<close> is undefined.
\<close>

definition UpdateCombinedLimit ::
  "'d double_arith \<Rightarrow> ('r \<Rightarrow> 'd \<times> 'r) \<Rightarrow> bool \<Rightarrow> 'r \<Rightarrow> ee_alloc_context \<Rightarrow>
     (ee_alloc_context \<times> 'r) option" where
  "UpdateCombinedLimit fl NextDouble samplingEnabled pRandom ctx =
     (if \<not> samplingEnabled
      then Some (ctx\<lparr>combined_limit := alloc_limit (gc_alloc_context ctx)\<rparr>, pRandom)
      else
        (case ComputeGeometricRandom fl NextDouble pRandom of
           (None, pRandom') \<Rightarrow> None
         | (Some threshold, pRandom') \<Rightarrow>
             (let sampling_limit = alloc_ptr (gc_alloc_context ctx) + scast threshold
              in Some (ctx\<lparr>combined_limit :=
                              Min_ptr sampling_limit (alloc_limit (gc_alloc_context ctx))\<rparr>,
                       pRandom'))))"

text \<open>
  One arithmetic to run the functions on: the real numbers with their exact operations,
  and the conversion to \<^verbatim>\<open>int\<close> that discards the fractional part (truncation towards
  zero) and is undefined when the truncated value does not fit 32 bits. It has no
  rounding, so it is not the arithmetic of the machine.
\<close>

definition real_to_int :: "real \<Rightarrow> int32 option" where
  "real_to_int d =
     (let t = (if 0 \<le> d then \<lfloor>d\<rfloor> else \<lceil>d\<rceil>)
      in if - (2 ^ 31) \<le> t \<and> t < 2 ^ 31 then Some (word_of_int t) else None)"

definition exact_arith :: "real double_arith" where
  "exact_arith =
     \<lparr>fl_of_int = real_of_int, fl_sub = (\<lambda>x y. x - y), fl_neg = (\<lambda>x. - x),
      fl_mul = (\<lambda>x y. x * y), fl_log = ln, fl_to_int = real_to_int\<rparr>"

text \<open>
  The numbers \<^verbatim>\<open>NextDouble\<close> can return: a \<^verbatim>\<open>double\<close> in \<open>[0, 1)\<close>. The largest
  \<^verbatim>\<open>double\<close> below \<open>1\<close> is \<open>1 - 2\<^sup>-\<^sup>5\<^sup>3\<close>.
\<close>

definition unit_double :: "real \<Rightarrow> bool" where
  "unit_double p = (0 \<le> p \<and> p \<le> 1 - 1 / 2 ^ 53)"

text \<open>
  The allocation window of the specification's scenario, with a \<open>combined_limit\<close> left
  over from an earlier window.
\<close>

definition example_context :: ee_alloc_context where
  "example_context =
     \<lparr>combined_limit = 0x3000,
      gc_alloc_context = \<lparr>alloc_ptr = 0x1000, alloc_limit = 0x2000\<rparr>\<rparr>"

section \<open>Heap handle and lifecycle registry\<close>

text \<open>
  The global \<^verbatim>\<open>g_pGCHeap\<close> is passed as an argument. \<^verbatim>\<open>IGCHeap\<close> is declared in
  \<^verbatim>\<open>gcinterface.h\<close>, which is not among the sources: its virtual methods
  \<^verbatim>\<open>IsGCInProgressHelper\<close> and \<^verbatim>\<open>WaitUntilGCComplete\<close> are parameters. They receive the
  heap pointer, the flag and the collector's state (of any type \<open>'w\<close>);
  \<^verbatim>\<open>WaitUntilGCComplete\<close> returns the collector's state after the wait, or \<open>None\<close> when
  the wait never ends.
\<close>

definition GetGCHeap :: "bool \<Rightarrow> addr \<Rightarrow> error + addr" where
  "GetGCHeap checked g_pGCHeap =
     (if checked \<and> \<not> (g_pGCHeap \<noteq> 0) then Inl AssertionFailed else Inr g_pGCHeap)"

definition IsGCHeapInitialized :: "addr \<Rightarrow> bool" where
  "IsGCHeapInitialized g_pGCHeap = (g_pGCHeap \<noteq> 0)"

definition IsGCInProgress ::
  "bool \<Rightarrow> (addr \<Rightarrow> bool \<Rightarrow> 'w \<Rightarrow> bool) \<Rightarrow> addr \<Rightarrow> bool \<Rightarrow> 'w \<Rightarrow> error + bool" where
  "IsGCInProgress checked IsGCInProgressHelper g_pGCHeap bConsiderGCStart w =
     (if IsGCHeapInitialized g_pGCHeap
      then (case GetGCHeap checked g_pGCHeap of
              Inl e \<Rightarrow> Inl e
            | Inr heap \<Rightarrow> Inr (IsGCInProgressHelper heap bConsiderGCStart w))
      else Inr False)"

definition WaitForGCCompletion ::
  "bool \<Rightarrow> (addr \<Rightarrow> bool \<Rightarrow> 'w \<Rightarrow> 'w option) \<Rightarrow> addr \<Rightarrow> bool \<Rightarrow> 'w \<Rightarrow> error + 'w option" where
  "WaitForGCCompletion checked WaitUntilGCComplete g_pGCHeap bConsiderGCStart w =
     (if IsGCHeapInitialized g_pGCHeap
      then (case GetGCHeap checked g_pGCHeap of
              Inl e \<Rightarrow> Inl e
            | Inr heap \<Rightarrow> Inr (WaitUntilGCComplete heap bConsiderGCStart w))
      else Inr (Some w))"

section \<open>Dirty-page tracker (software write watch)\<close>

text \<open>
  The table \<^verbatim>\<open>g_sw_ww_table\<close> is a \<^verbatim>\<open>uint8_t*\<close> indexed by a \<^verbatim>\<open>size_t\<close>: it is
  the function from the index to the byte stored at \<^verbatim>\<open>&g_sw_ww_table[index]\<close>, and it
  is passed as an argument and returned updated. The constant
  \<^verbatim>\<open>SOFTWARE_WRITE_WATCH_AddressToTableByteIndexShift\<close> is defined in
  \<^verbatim>\<open>softwarewritewatch.h\<close>, which is not among the sources: it is the parameter
  \<open>AddressToTableByteIndexShift\<close>, so that a page has \<open>2 ^ AddressToTableByteIndexShift\<close>
  bytes. \<^verbatim>\<open>sizeof(void*)\<close> is 8.
\<close>

type_synonym sww_table = "size_t \<Rightarrow> uint8_t"

definition SoftwareWriteWatchSetDirty ::
  "bool \<Rightarrow> nat \<Rightarrow> sww_table \<Rightarrow> addr \<Rightarrow> size_t \<Rightarrow> error + sww_table" where
  "SoftwareWriteWatchSetDirty checked AddressToTableByteIndexShift g_sw_ww_table address write_size =
     (if checked \<and> \<not> (address \<noteq> 0) then Inl AssertionFailed
      else if checked \<and> \<not> (write_size \<le> 8) then Inl AssertionFailed
      else
        (let table_byte_index = drop_bit AddressToTableByteIndexShift address;
             end_of_write_ptr = address + (write_size - 1)
         in if checked \<and>
               \<not> (table_byte_index = drop_bit AddressToTableByteIndexShift end_of_write_ptr)
            then Inl AssertionFailed
            else if g_sw_ww_table table_byte_index = 0
            then Inr (g_sw_ww_table(table_byte_index := 0xFF))
            else Inr g_sw_ww_table))"

text \<open>
  The C library's \<^verbatim>\<open>memset(dest, c, n)\<close> on the table, \<open>dest\<close> being
  \<^verbatim>\<open>&g_sw_ww_table[start]\<close>: the \<open>n\<close> bytes from index \<open>start\<close> on are set, one after the
  other, to \<open>c\<close> converted to \<^verbatim>\<open>unsigned char\<close>.
\<close>

definition memset :: "sww_table \<Rightarrow> size_t \<Rightarrow> int32 \<Rightarrow> size_t \<Rightarrow> sww_table" where
  "memset tbl start c n = fold (\<lambda>k t. t(start + of_nat k := ucast c)) [0..<unat n] tbl"

definition SoftwareWriteWatchSetDirtyRegion ::
  "bool \<Rightarrow> nat \<Rightarrow> sww_table \<Rightarrow> addr \<Rightarrow> size_t \<Rightarrow> error + sww_table" where
  "SoftwareWriteWatchSetDirtyRegion checked AddressToTableByteIndexShift g_sw_ww_table address len =
     (if checked \<and> \<not> (address \<noteq> 0) then Inl AssertionFailed
      else
        (let base_index = drop_bit AddressToTableByteIndexShift address;
             end_pointer = address + len - 1;
             end_index = drop_bit AddressToTableByteIndexShift end_pointer
         in Inr (memset g_sw_ww_table base_index (NOT 0) (end_index - base_index + 1))))"

text \<open>
  The vocabulary of the specification: the bytes of page \<open>i\<close>, and whether page \<open>i\<close>
  intersects the byte range \<open>[address, address + len)\<close>. Both are sets of natural
  numbers, so that \<open>address + len\<close> is the mathematical sum.
\<close>

definition page_range :: "nat \<Rightarrow> nat \<Rightarrow> nat set" where
  "page_range AddressToTableByteIndexShift i =
     {i * 2 ^ AddressToTableByteIndexShift ..< (i + 1) * 2 ^ AddressToTableByteIndexShift}"

definition page_intersects :: "nat \<Rightarrow> size_t \<Rightarrow> addr \<Rightarrow> size_t \<Rightarrow> bool" where
  "page_intersects AddressToTableByteIndexShift i address len =
     (page_range AddressToTableByteIndexShift (unat i) \<inter> {unat address ..< unat address + unat len} \<noteq> {})"

text \<open>The table in which no page has been touched.\<close>

definition clean_table :: sww_table where
  "clean_table = (\<lambda>i. 0)"

section \<open>ARM64 assembler macros\<close>

text \<open>
  The constants of \<^verbatim>\<open>AsmMacros.h\<close> that describe the flags of a transition frame.
\<close>

definition PTFF_SAVE_X19 :: "64 word" where "PTFF_SAVE_X19 = 0x00000001"
definition PTFF_SAVE_X20 :: "64 word" where "PTFF_SAVE_X20 = 0x00000002"
definition PTFF_SAVE_X21 :: "64 word" where "PTFF_SAVE_X21 = 0x00000004"
definition PTFF_SAVE_X22 :: "64 word" where "PTFF_SAVE_X22 = 0x00000008"
definition PTFF_SAVE_X23 :: "64 word" where "PTFF_SAVE_X23 = 0x00000010"
definition PTFF_SAVE_X24 :: "64 word" where "PTFF_SAVE_X24 = 0x00000020"
definition PTFF_SAVE_X25 :: "64 word" where "PTFF_SAVE_X25 = 0x00000040"
definition PTFF_SAVE_X26 :: "64 word" where "PTFF_SAVE_X26 = 0x00000080"
definition PTFF_SAVE_X27 :: "64 word" where "PTFF_SAVE_X27 = 0x00000100"
definition PTFF_SAVE_X28 :: "64 word" where "PTFF_SAVE_X28 = 0x00000200"
definition PTFF_SAVE_SP :: "64 word" where "PTFF_SAVE_SP = 0x00000400"
definition PTFF_SAVE_ALL_PRESERVED :: "64 word" where "PTFF_SAVE_ALL_PRESERVED = 0x000003FF"

definition DEFAULT_FRAME_SAVE_FLAGS :: "64 word" where
  "DEFAULT_FRAME_SAVE_FLAGS = PTFF_SAVE_ALL_PRESERVED + PTFF_SAVE_SP"

text \<open>
  The machine state the macros work on. A register operand is a general register
  \<open>X n\<close> (\<^verbatim>\<open>fp\<close> is \<open>X 29\<close> and \<^verbatim>\<open>lr\<close> is \<open>X 30\<close>), the stack pointer \<^verbatim>\<open>sp\<close> or the
  zero register \<^verbatim>\<open>xzr\<close>, which reads as \<open>0\<close> and ignores what is written to it. Every
  load and store of the macros moves 8 bytes, so memory is a function from the address
  of an 8-byte cell to the 64-bit value in it; loads and stores that overlap without
  having the same address are outside the model.
\<close>

datatype reg = X nat | SP | XZR

definition fp :: reg where "fp = X 29"
definition lr :: reg where "lr = X 30"

record machine =
  regs :: "reg \<Rightarrow> 64 word"
  mem :: "addr \<Rightarrow> 64 word"

definition read_reg :: "machine \<Rightarrow> reg \<Rightarrow> 64 word" where
  "read_reg s r = (if r = XZR then 0 else regs s r)"

definition write_reg :: "reg \<Rightarrow> 64 word \<Rightarrow> machine \<Rightarrow> machine" where
  "write_reg r v s = (if r = XZR then s else s\<lparr>regs := (regs s)(r := v)\<rparr>)"

definition store :: "addr \<Rightarrow> 64 word \<Rightarrow> machine \<Rightarrow> machine" where
  "store a v s = s\<lparr>mem := (mem s)(a := v)\<rparr>"

text \<open>
  The instructions the two macros use, operands in the assembler's order:
  \<^item> \<open>Ldr rt rn off\<close> is \<^verbatim>\<open>ldr rt, [rn, #off]\<close>;
  \<^item> \<open>Cbz rt l\<close> is \<^verbatim>\<open>cbz rt, %ftl\<close>, a branch forward to the next local label \<open>l\<close>
    when \<open>rt\<close> is zero;
  \<^item> \<open>Str rt rn off\<close> is \<^verbatim>\<open>str rt, [rn, #off]\<close>;
  \<^item> \<open>PROLOG_SAVE_REG_PAIR r1 r2 off wb\<close> is the macro of \<^verbatim>\<open>ksarm64.h\<close>, which emits
    \<^verbatim>\<open>stp r1, r2, [sp, #off]\<close> and, when the offset is written with \<^verbatim>\<open>!\<close> (\<open>wb\<close>),
    \<^verbatim>\<open>stp r1, r2, [sp, #off]!\<close>, which first moves \<^verbatim>\<open>sp\<close> by \<open>off\<close>; the unwind
    information that the macro also emits is not modelled;
  \<^item> \<open>Add rd rn imm\<close> is \<^verbatim>\<open>add rd, rn, #imm\<close>;
  \<^item> \<open>Mov_imm rd imm\<close> is \<^verbatim>\<open>mov rd, #imm\<close> and \<open>Mov rd rn\<close> is \<^verbatim>\<open>mov rd, rn\<close>;
  \<^item> \<open>Label l\<close> is the local label \<open>l\<close>.
\<close>

datatype instr =
    Ldr reg reg "64 word"
  | Cbz reg nat
  | Str reg reg "64 word"
  | PROLOG_SAVE_REG_PAIR reg reg "64 word" bool
  | Add reg reg "64 word"
  | Mov_imm reg "64 word"
  | Mov reg reg
  | Label nat

fun step :: "instr \<Rightarrow> machine \<Rightarrow> machine" where
  "step (Ldr rt rn off) s = write_reg rt (mem s (read_reg s rn + off)) s"
| "step (Str rt rn off) s = store (read_reg s rn + off) (read_reg s rt) s"
| "step (PROLOG_SAVE_REG_PAIR r1 r2 off wb) s =
     (let a = read_reg s SP + off;
          s1 = store (a + 8) (read_reg s r2) (store a (read_reg s r1) s)
      in if wb then write_reg SP a s1 else s1)"
| "step (Add rd rn imm) s = write_reg rd (read_reg s rn + imm) s"
| "step (Mov_imm rd imm) s = write_reg rd imm s"
| "step (Mov rd rn) s = write_reg rd (read_reg s rn) s"
| "step (Cbz rt l) s = s"
| "step (Label l) s = s"

text \<open>
  Running a macro body: the instructions run in order; a taken \<open>Cbz\<close> skips to the
  next label of that number (the only branches of the macros are forward).
\<close>

function (sequential) exec :: "instr list \<Rightarrow> machine \<Rightarrow> machine" where
  "exec [] s = s"
| "exec (Cbz rt l # rest) s =
     (if read_reg s rt = 0 then exec (dropWhile (\<lambda>i. i \<noteq> Label l) rest) s else exec rest s)"
| "exec (i # rest) s = exec rest (step i s)"
  by pat_completeness auto
termination
  by (relation "measure (\<lambda>(prog, s). length prog)")
     (auto simp: le_imp_less_Suc length_dropWhile_le)

text \<open>
  \<^verbatim>\<open>INLINE_THREAD_UNHIJACK $threadReg, $trashReg1, $trashReg2\<close>. The two offsets come
  from the generated \<^verbatim>\<open>AsmOffsets.inc\<close>, which is not among the sources: they are
  parameters.
\<close>

definition INLINE_THREAD_UNHIJACK :: "64 word \<Rightarrow> 64 word \<Rightarrow> reg \<Rightarrow> reg \<Rightarrow> reg \<Rightarrow> instr list" where
  "INLINE_THREAD_UNHIJACK OFFSETOF__Thread__m_pvHijackedReturnAddress
       OFFSETOF__Thread__m_ppvHijackedReturnAddressLocation threadReg trashReg1 trashReg2 =
     [Ldr trashReg1 threadReg OFFSETOF__Thread__m_pvHijackedReturnAddress,
      Cbz trashReg1 0,
      Ldr trashReg2 threadReg OFFSETOF__Thread__m_ppvHijackedReturnAddressLocation,
      Str trashReg1 trashReg2 0,
      Str XZR threadReg OFFSETOF__Thread__m_ppvHijackedReturnAddressLocation,
      Str XZR threadReg OFFSETOF__Thread__m_pvHijackedReturnAddress,
      Label 0]"

text \<open>\<^verbatim>\<open>PUSH_COOP_PINVOKE_FRAME $trashReg\<close>.\<close>

definition PUSH_COOP_PINVOKE_FRAME :: "reg \<Rightarrow> instr list" where
  "PUSH_COOP_PINVOKE_FRAME trashReg =
     [PROLOG_SAVE_REG_PAIR fp lr (- 0x80) True,
      PROLOG_SAVE_REG_PAIR (X 19) (X 20) 0x20 False,
      PROLOG_SAVE_REG_PAIR (X 21) (X 22) 0x30 False,
      PROLOG_SAVE_REG_PAIR (X 23) (X 24) 0x40 False,
      PROLOG_SAVE_REG_PAIR (X 25) (X 26) 0x50 False,
      PROLOG_SAVE_REG_PAIR (X 27) (X 28) 0x60 False,
      Add trashReg SP 0x80,
      Str trashReg SP 0x70,
      Mov_imm trashReg DEFAULT_FRAME_SAVE_FLAGS,
      Str trashReg SP 0x18,
      Mov trashReg SP]"

text \<open>
  States to run the macros on. A thread object at \<open>0x1000\<close>, its address in \<^verbatim>\<open>x0\<close>,
  with the two fields of the hijack record at offsets \<open>0x10\<close> and \<open>0x18\<close>: once holding
  the return address \<open>0xAAAA\<close> taken from the stack slot at \<open>0x8000\<close>, once empty. And a
  helper's entry state with the stack pointer at \<open>0x9000\<close>.
\<close>

definition hijacked_thread :: machine where
  "hijacked_thread =
     \<lparr>regs = (\<lambda>r. 0)(X 0 := 0x1000),
      mem = (\<lambda>a. 0)(0x1010 := 0xAAAA, 0x1018 := 0x8000)\<rparr>"

definition unhijacked_thread :: machine where
  "unhijacked_thread =
     \<lparr>regs = (\<lambda>r. 0)(X 0 := 0x1000), mem = (\<lambda>a. 0)(0x8000 := 0xBBBB)\<rparr>"

definition helper_entry :: machine where
  "helper_entry =
     \<lparr>regs = (\<lambda>r. 0)(SP := 0x9000, X 19 := 0x19, X 28 := 0x28, X 29 := 0x29, X 30 := 0x30),
      mem = (\<lambda>a. 0)\<rparr>"

section \<open>Properties of the allocation context\<close>

lemma Min_ptr_le_right: "Min_ptr v1 v2 \<le> v2"
  by (auto simp: Min_ptr_def)

lemma Min_ptr_eq_min: "Min_ptr v1 v2 = min v1 v2"
  by (auto simp: Min_ptr_def min_def)

text \<open>
  Claim C1. For every allocation context whose \<open>alloc_ptr\<close> is at most its \<open>alloc_limit\<close>
  on entry, for every floating-point arithmetic and every generator, and for every call
  of \<open>UpdateCombinedLimit\<close>, with sampling enabled or disabled: after the call
  \<open>combined_limit \<le> alloc_limit\<close>. The call fails to return only when sampling is
  enabled and the conversion of the threshold to \<^verbatim>\<open>int\<close> is undefined.
\<close>

theorem UpdateCombinedLimit_combined_limit_le_alloc_limit:
  assumes "alloc_ptr (gc_alloc_context ctx) \<le> alloc_limit (gc_alloc_context ctx)"
  shows "(\<forall>ctx' pRandom'.
            UpdateCombinedLimit fl NextDouble samplingEnabled pRandom ctx = Some (ctx', pRandom')
            \<longrightarrow> combined_limit ctx' \<le> alloc_limit (gc_alloc_context ctx')) \<and>
         (UpdateCombinedLimit fl NextDouble samplingEnabled pRandom ctx = None
            \<longleftrightarrow> samplingEnabled \<and> fst (ComputeGeometricRandom fl NextDouble pRandom) = None)"
  by (auto simp: UpdateCombinedLimit_def Min_ptr_le_right split: prod.splits option.splits)

text \<open>
  In exact arithmetic, for a draw \<open>p\<close> that is a \<^verbatim>\<open>double\<close> in \<open>[0, 1)\<close>, the product
  \<open>- ln (1 - p) * 102400\<close> lies between \<open>0\<close> and \<open>53 * 102400\<close>: its conversion to
  \<^verbatim>\<open>int\<close> is defined and is the floor.
\<close>

lemma ln_two_le_one: "ln (2::real) \<le> 1"
  using ln_le_minus_one [of "2::real"] by simp

lemma unit_double_threshold_bounds:
  assumes "unit_double p"
  shows "0 \<le> - ln (1 - p) * 102400" and "- ln (1 - p) * 102400 \<le> 5427200"
proof -
  from assms have p: "0 \<le> p" "p \<le> 1 - 1 / 2 ^ 53" by (simp_all add: unit_double_def)
  have pos: "(0::real) < 1 / 2 ^ 53" by simp
  have lo: "1 / 2 ^ 53 \<le> 1 - p" using p by simp
  have hi: "1 - p \<le> 1" using p by simp
  have "ln (1 - p) \<le> ln 1" using lo pos hi by (intro ln_mono) auto
  then have "ln (1 - p) \<le> 0" by simp
  then show "0 \<le> - ln (1 - p) * 102400" by simp
  have "ln (1 / 2 ^ 53) \<le> ln (1 - p)" using lo pos by (intro ln_mono) auto
  moreover have "ln (1 / 2 ^ 53 :: real) = - (53 * ln 2)"
    using ln_realpow [of "2::real" 53] ln_div [of "1::real" "2 ^ 53"] by simp
  ultimately have "- ln (1 - p) \<le> 53 * ln 2" by simp
  also have "\<dots> \<le> 53" using ln_two_le_one by simp
  finally show "- ln (1 - p) * 102400 \<le> 5427200" by simp
qed

lemma SamplingDistributionMean_uint: "uint SamplingDistributionMean = 102400"
  by (simp add: SamplingDistributionMean_def)

lemma real_to_int_nonneg:
  assumes "0 \<le> d" "d \<le> 5427200"
  shows "real_to_int d = Some (word_of_int \<lfloor>d\<rfloor>)"
proof -
  have "0 \<le> \<lfloor>d\<rfloor>" using assms by simp
  moreover have "\<lfloor>d\<rfloor> \<le> 5427200" using assms by (simp add: floor_le_iff)
  ultimately show ?thesis using assms by (simp add: real_to_int_def)
qed

lemma ComputeGeometricRandom_exact_arith:
  assumes "NextDouble r = (p, r')" "unit_double p"
  shows "ComputeGeometricRandom exact_arith NextDouble r =
           (Some (word_of_int \<lfloor>- ln (1 - p) * 102400\<rfloor>), r')"
proof -
  have "real_to_int (- ln (1 - p) * 102400) = Some (word_of_int \<lfloor>- ln (1 - p) * 102400\<rfloor>)"
    by (rule real_to_int_nonneg) (rule unit_double_threshold_bounds [OF assms(2)])+
  then show ?thesis
    using assms(1)
    by (simp add: ComputeGeometricRandom_def exact_arith_def SamplingDistributionMean_uint)
qed

theorem UpdateCombinedLimit_combined_limit_le_alloc_limit_witness:
  "alloc_ptr (gc_alloc_context example_context) \<le> alloc_limit (gc_alloc_context example_context) \<and>
   UpdateCombinedLimit exact_arith (\<lambda>r::unit. (0, r)) True () example_context =
     Some (example_context\<lparr>combined_limit := 0x1000\<rparr>, ()) \<and>
   combined_limit (example_context\<lparr>combined_limit := 0x1000\<rparr>)
     \<le> alloc_limit (gc_alloc_context (example_context\<lparr>combined_limit := 0x1000\<rparr>))"
proof -
  have c: "ComputeGeometricRandom exact_arith (\<lambda>r::unit. (0, r)) () = (Some 0, ())"
    using ComputeGeometricRandom_exact_arith [of "\<lambda>r::unit. (0, r)" "()" 0 "()"]
    by (simp add: unit_double_def)
  have u: "UpdateCombinedLimit exact_arith (\<lambda>r::unit. (0, r)) True () example_context =
             Some (example_context\<lparr>combined_limit := 0x1000\<rparr>, ())"
    by (simp add: UpdateCombinedLimit_def c Min_ptr_def example_context_def)
  show ?thesis
    using UpdateCombinedLimit_combined_limit_le_alloc_limit
            [where ctx = example_context and fl = exact_arith and NextDouble = "\<lambda>r::unit. (0, r)"
               and samplingEnabled = True and pRandom = "()"] u
    by (simp add: example_context_def)
qed

text \<open>
  Claim C2. If sampling is disabled, then after \<open>UpdateCombinedLimit\<close> the
  \<open>combined_limit\<close> equals the \<open>alloc_limit\<close>, whatever \<open>combined_limit\<close> was before (the
  window itself and the generator are left as they were); and after \<open>init\<close> the
  \<open>combined_limit\<close> equals the \<open>alloc_limit\<close> as well.
\<close>

theorem UpdateCombinedLimit_sampling_disabled:
  assumes "\<not> samplingEnabled"
  shows "(\<exists>ctx'. UpdateCombinedLimit fl NextDouble samplingEnabled pRandom ctx = Some (ctx', pRandom) \<and>
                 combined_limit ctx' = alloc_limit (gc_alloc_context ctx') \<and>
                 gc_alloc_context ctx' = gc_alloc_context ctx)
         \<and> combined_limit (init ctx) = alloc_limit (gc_alloc_context (init ctx))"
  using assms by (simp add: UpdateCombinedLimit_def init_def gc_alloc_context_init_def)

theorem UpdateCombinedLimit_sampling_disabled_witness:
  "\<not> False \<and>
   (\<exists>ctx'. UpdateCombinedLimit exact_arith (\<lambda>r::unit. (1 / 2, r)) False () example_context
             = Some (ctx', ()) \<and>
           combined_limit ctx' = 0x2000 \<and>
           gc_alloc_context ctx' = \<lparr>alloc_ptr = 0x1000, alloc_limit = 0x2000\<rparr>)
   \<and> combined_limit (init example_context) = 0
   \<and> alloc_limit (gc_alloc_context (init example_context)) = 0"
  using UpdateCombinedLimit_sampling_disabled
          [where samplingEnabled = False and fl = exact_arith
             and NextDouble = "\<lambda>r::unit. (1 / 2, r)" and pRandom = "()" and ctx = example_context]
  by (auto simp: init_def gc_alloc_context_init_def example_context_def)

text \<open>
  With sampling enabled, in every arithmetic: one number is drawn, the threshold is the
  conversion to \<^verbatim>\<open>int\<close> of the product of \<open>- log (1 - probability)\<close> and
  \<open>SamplingDistributionMean = 100 * 1024\<close>, the candidate sampling address is
  \<open>alloc_ptr + threshold\<close>, and \<open>combined_limit\<close> becomes the minimum of the candidate
  and \<open>alloc_limit\<close>, which is \<open>alloc_limit\<close> when the candidate lies beyond it.
\<close>

lemma UpdateCombinedLimit_sampling_enabled:
  assumes "NextDouble pRandom = (probability, pRandom')"
  shows "UpdateCombinedLimit fl NextDouble True pRandom ctx =
           (case fl_to_int fl
                   (fl_mul fl (fl_neg fl (fl_log fl (fl_sub fl (fl_of_int fl 1) probability)))
                              (fl_of_int fl (100 * 1024))) of
              None \<Rightarrow> None
            | Some threshold \<Rightarrow>
                Some (ctx\<lparr>combined_limit :=
                            min (alloc_ptr (gc_alloc_context ctx) + scast threshold)
                                (alloc_limit (gc_alloc_context ctx))\<rparr>, pRandom'))"
  using assms
  by (simp add: UpdateCombinedLimit_def ComputeGeometricRandom_def Min_ptr_eq_min
      SamplingDistributionMean_uint split: option.splits)

text \<open>
  The sampling limit in exact arithmetic: for a draw \<open>p\<close> that is a \<^verbatim>\<open>double\<close> in
  \<open>[0, 1)\<close> the threshold is \<open>\<lfloor>- ln (1 - p) * 102400\<rfloor>\<close>, the candidate is
  \<open>alloc_ptr + threshold\<close>, and \<open>combined_limit\<close> becomes the minimum of the candidate and
  \<open>alloc_limit\<close>. This is a fact about \<open>exact_arith\<close>; with the rounding of the machine's
  \<^verbatim>\<open>double\<close> the threshold is the conversion of the rounded product.
\<close>

lemma scast_threshold:
  assumes "0 \<le> k" "k \<le> 5427200"
  shows "(scast (word_of_int k :: int32) :: addr) = word_of_int k"
    and "sint (word_of_int k :: int32) = k"
proof -
  have "- (2 ^ 31) \<le> k \<and> k < 2 ^ 31" using assms by simp
  then have "signed_take_bit 31 k = k"
    by (simp only: signed_take_bit_int_eq_self_iff)
  then show "sint (word_of_int k :: int32) = k"
    by (simp add: sint_sbintrunc')
  then have "of_int (sint (word_of_int k :: int32)) = (word_of_int k :: addr)"
    by simp
  then show "(scast (word_of_int k :: int32) :: addr) = word_of_int k"
    by simp
qed

lemma UpdateCombinedLimit_exact_arith:
  assumes "NextDouble pRandom = (p, pRandom')" and "unit_double p"
  shows "UpdateCombinedLimit exact_arith NextDouble True pRandom ctx =
           Some (ctx\<lparr>combined_limit :=
                       min (alloc_ptr (gc_alloc_context ctx) + word_of_int \<lfloor>- ln (1 - p) * 102400\<rfloor>)
                           (alloc_limit (gc_alloc_context ctx))\<rparr>, pRandom')"
proof -
  let ?k = "\<lfloor>- ln (1 - p) * 102400\<rfloor>"
  have bounds: "0 \<le> ?k" "?k \<le> 5427200"
    using unit_double_threshold_bounds [OF assms(2)] by (simp_all add: floor_le_iff)
  have cgr: "ComputeGeometricRandom exact_arith NextDouble pRandom = (Some (word_of_int ?k), pRandom')"
    by (rule ComputeGeometricRandom_exact_arith [of NextDouble pRandom p pRandom', OF assms])
  have sc: "(scast (word_of_int ?k :: int32) :: addr) = word_of_int ?k"
    by (rule scast_threshold(1) [OF bounds])
  show ?thesis
    using sc by (simp add: UpdateCombinedLimit_def cgr Min_ptr_eq_min)
qed

section \<open>Properties of the heap registry\<close>

text \<open>
  Claim C8. \<open>WaitForGCCompletion\<close> does nothing (it returns at once, the collector's
  state as it was) when the heap is not initialized; otherwise its outcome is the
  outcome of the heap's \<open>WaitUntilGCComplete\<close>, called on \<open>g_pGCHeap\<close> with the same
  flag. In neither case does an assertion stop it.
\<close>

theorem WaitForGCCompletion_noop_or_delegates:
  "(\<not> IsGCHeapInitialized g_pGCHeap \<longrightarrow>
      WaitForGCCompletion checked WaitUntilGCComplete g_pGCHeap bConsiderGCStart w = Inr (Some w)) \<and>
   (IsGCHeapInitialized g_pGCHeap \<longrightarrow>
      WaitForGCCompletion checked WaitUntilGCComplete g_pGCHeap bConsiderGCStart w =
        Inr (WaitUntilGCComplete g_pGCHeap bConsiderGCStart w))"
  by (simp add: WaitForGCCompletion_def IsGCHeapInitialized_def GetGCHeap_def)

theorem WaitForGCCompletion_noop_or_delegates_witness:
  "\<not> IsGCHeapInitialized 0 \<and>
   WaitForGCCompletion True (\<lambda>heap b (w::nat). if b then None else Some (w + unat heap)) 0 False 5
     = Inr (Some 5) \<and>
   IsGCHeapInitialized 0x7000 \<and>
   WaitForGCCompletion True (\<lambda>heap b (w::nat). if b then None else Some (w + unat heap)) 0x7000 False 5
     = Inr (Some (5 + unat (0x7000 :: addr)))"
  using WaitForGCCompletion_noop_or_delegates
          [of 0 True "\<lambda>heap b (w::nat). if b then None else Some (w + unat heap)" False 5]
        WaitForGCCompletion_noop_or_delegates
          [of "0x7000" True "\<lambda>heap b (w::nat). if b then None else Some (w + unat heap)" False 5]
  by (simp add: IsGCHeapInitialized_def)

text \<open>
  Claim C10. \<open>IsGCInProgress\<close> returns false whenever the heap is not initialized,
  whatever the heap's \<open>IsGCInProgressHelper\<close> would answer: the heap is not consulted.
\<close>

theorem IsGCInProgress_uninitialized:
  assumes "\<not> IsGCHeapInitialized g_pGCHeap"
  shows "IsGCInProgress checked IsGCInProgressHelper g_pGCHeap bConsiderGCStart w = Inr False"
  using assms by (simp add: IsGCInProgress_def)

theorem IsGCInProgress_uninitialized_witness:
  "\<not> IsGCHeapInitialized 0 \<and>
   IsGCInProgress True (\<lambda>heap b (w::unit). True) 0 True () = Inr False"
  using IsGCInProgress_uninitialized [of 0 True "\<lambda>heap b (w::unit). True" True "()"]
  by (simp add: IsGCHeapInitialized_def)

section \<open>Properties of the dirty-page tracker\<close>

lemma SetDirty_release:
  "SoftwareWriteWatchSetDirty False sh tbl a ws =
     Inr (if tbl (drop_bit sh a) = 0 then tbl(drop_bit sh a := 0xFF) else tbl)"
  by (simp add: SoftwareWriteWatchSetDirty_def)

lemma SetDirty_Inr:
  assumes "SoftwareWriteWatchSetDirty checked sh tbl a ws = Inr t"
  shows "t = (if tbl (drop_bit sh a) = 0 then tbl(drop_bit sh a := 0xFF) else tbl)"
  using assms by (auto simp: SoftwareWriteWatchSetDirty_def Let_def split: if_splits)

text \<open>
  Claim C5. \<open>SoftwareWriteWatchSetDirty\<close> is idempotent: for every address, calling it
  a second time on the table the first call returned gives that same table (and a call
  that an assertion of a checked build stops is stopped the first time). In a release
  build the call always returns.
\<close>

theorem SoftwareWriteWatchSetDirty_idempotent:
  "(case SoftwareWriteWatchSetDirty checked shift tbl address write_size of
      Inl e \<Rightarrow> Inl e
    | Inr t \<Rightarrow> SoftwareWriteWatchSetDirty checked shift t address write_size)
   = SoftwareWriteWatchSetDirty checked shift tbl address write_size
   \<and> (\<exists>t. SoftwareWriteWatchSetDirty False shift tbl address write_size = Inr t \<and>
           SoftwareWriteWatchSetDirty False shift t address write_size = Inr t)"
  by (simp add: SoftwareWriteWatchSetDirty_def Let_def)

theorem SoftwareWriteWatchSetDirty_idempotent_witness:
  "SoftwareWriteWatchSetDirty True 12 clean_table 0x5008 8 = Inr (clean_table(5 := 0xFF)) \<and>
   SoftwareWriteWatchSetDirty True 12 (clean_table(5 := 0xFF)) 0x5008 8 = Inr (clean_table(5 := 0xFF))"
proof -
  have d: "drop_bit 12 (0x5008 :: addr) = 5" "drop_bit 12 (0x5008 + (8 - 1) :: addr) = 5"
    by (simp_all add: drop_bit_eq_div)
  have sd: "SoftwareWriteWatchSetDirty True 12 clean_table 0x5008 8 = Inr (clean_table(5 := 0xFF))"
    by (simp add: SoftwareWriteWatchSetDirty_def Let_def d clean_table_def)
  show ?thesis
    using SoftwareWriteWatchSetDirty_idempotent
            [where checked = True and shift = 12 and tbl = clean_table and address = "0x5008"
               and write_size = 8]
    by (simp add: sd)
qed

text \<open>
  Claim C9. \<open>SoftwareWriteWatchSetDirty\<close> writes the table entry of the address's page
  only when that entry is zero, and then writes \<open>0xFF\<close>; an entry that holds any
  nonzero value keeps it (the table is returned as it was); no entry other than the one
  of the address's page is modified. In a release build the call always returns.
\<close>

theorem SoftwareWriteWatchSetDirty_writes_only_zero_entry:
  assumes "SoftwareWriteWatchSetDirty checked shift tbl address write_size = Inr t"
  shows "(tbl (drop_bit shift address) = 0 \<longrightarrow> t = tbl(drop_bit shift address := 0xFF)) \<and>
         (tbl (drop_bit shift address) \<noteq> 0 \<longrightarrow> t = tbl) \<and>
         (i \<noteq> drop_bit shift address \<longrightarrow> t i = tbl i) \<and>
         (\<exists>t'. SoftwareWriteWatchSetDirty False shift tbl address write_size = Inr t')"
  using SetDirty_Inr [OF assms] by (simp add: SetDirty_release)

theorem SoftwareWriteWatchSetDirty_writes_only_zero_entry_witness:
  "SoftwareWriteWatchSetDirty True 12 (clean_table(5 := 1)) 0x5008 8 = Inr (clean_table(5 := 1)) \<and>
   (clean_table(5 := 1)) (drop_bit 12 (0x5008 :: addr)) \<noteq> 0 \<and>
   SoftwareWriteWatchSetDirty True 12 clean_table 0x5008 8 = Inr (clean_table(5 := 0xFF)) \<and>
   clean_table (drop_bit 12 (0x5008 :: addr)) = 0 \<and>
   (4 :: size_t) \<noteq> drop_bit 12 (0x5008 :: addr) \<and>
   (clean_table(5 := 0xFF)) 4 = clean_table 4"
proof -
  have d: "drop_bit 12 (0x5008 :: addr) = 5" "drop_bit 12 (0x5008 + (8 - 1) :: addr) = 5"
    by (simp_all add: drop_bit_eq_div)
  have sd0: "SoftwareWriteWatchSetDirty True 12 clean_table 0x5008 8 = Inr (clean_table(5 := 0xFF))"
    by (simp add: SoftwareWriteWatchSetDirty_def Let_def d clean_table_def)
  have sd1: "SoftwareWriteWatchSetDirty True 12 (clean_table(5 := 1)) 0x5008 8 = Inr (clean_table(5 := 1))"
    by (simp add: SoftwareWriteWatchSetDirty_def Let_def d clean_table_def)
  show ?thesis
    using SoftwareWriteWatchSetDirty_writes_only_zero_entry [OF sd0, where i = 4]
          SoftwareWriteWatchSetDirty_writes_only_zero_entry [OF sd1, where i = 4] sd0 sd1
    by (simp add: d clean_table_def)
qed

text \<open>
  What \<^verbatim>\<open>memset\<close> leaves in the table: the entries whose distance from \<open>start\<close>
  (modulo \<open>2 ^ 64\<close>) is below the count hold the byte, the others are untouched.
\<close>

lemma fold_fun_upd_upt:
  fixes start :: size_t
  assumes "m \<le> 2 ^ 64"
  shows "fold (\<lambda>k t. t(start + of_nat k := c)) [0..<m] tbl i =
           (if unat (i - start) < m then c else tbl i)"
  using assms
proof (induction m)
  case 0
  then show ?case by simp
next
  case (Suc m)
  then have m: "m < 2 ^ 64" by simp
  have eq: "(i = start + of_nat m) = (unat (i - start) = m)"
  proof
    assume "i = start + of_nat m"
    then have "i - start = of_nat m" by simp
    then show "unat (i - start) = m" using m by (simp add: unat_of_nat)
  next
    assume "unat (i - start) = m"
    then have "of_nat (unat (i - start)) = (of_nat m :: size_t)" by simp
    then have "i - start = of_nat m" by simp
    then show "i = start + of_nat m" by (simp add: algebra_simps)
  qed
  from Suc m show ?case by (auto simp: eq)
qed

lemma ucast_NOT_0: "(ucast (NOT 0 :: int32) :: uint8_t) = 0xFF"
  by (simp add: unsigned_minus_1_eq_mask mask_eq_exp_minus_1)

lemma memset_entry:
  "memset tbl start c n i = (if unat (i - start) < unat n then ucast c else tbl i)"
proof -
  have "unat n \<le> 2 ^ 64" using unsigned_less [of n, where 'a = nat] by simp
  then show ?thesis unfolding memset_def by (rule fold_fun_upd_upt)
qed

lemma page_intersects_iff:
  assumes "0 < unat len"
  shows "page_intersects sh i a len =
           (unat a div 2 ^ sh \<le> unat i \<and> unat i \<le> (unat a + unat len - 1) div 2 ^ sh)"
proof -
  let ?P = "2 ^ sh :: nat"
  have P: "0 < ?P" by simp
  have 1: "(unat a < (unat i + 1) * ?P) = (unat a div ?P \<le> unat i)"
    using div_less_iff_less_mult [OF P, of "unat a" "unat i + 1"] by auto
  have 2: "(unat i * ?P < unat a + unat len) = (unat i \<le> (unat a + unat len - 1) div ?P)"
    using less_eq_div_iff_mult_less_eq [OF P, of "unat i" "unat a + unat len - 1"] assms by auto
  have "page_intersects sh i a len =
          (unat i * ?P < unat a + unat len \<and> unat a < (unat i + 1) * ?P)"
    using assms by (auto simp: page_intersects_def page_range_def Int_atLeastLessThan)
  then show ?thesis using 1 2 by blast
qed


lemma region_indices:
  fixes a len :: size_t and sh :: nat
  assumes len: "0 < unat len" and nowrap: "unat a + unat len \<le> 2 ^ 64"
  defines "base \<equiv> drop_bit sh a" and "endi \<equiv> drop_bit sh (a + len - 1)"
  shows "unat base = unat a div 2 ^ sh"
    and "unat endi = (unat a + unat len - 1) div 2 ^ sh"
    and "unat (endi - base + 1) = unat endi - unat base + 1"
    and "unat base \<le> unat endi"
proof -
  show b: "unat base = unat a div 2 ^ sh"
    by (simp add: base_def unat_drop_bit_eq drop_bit_nat_def)
  have len0: "len \<noteq> 0" using len by (auto simp: unat_eq_0)
  have l1: "unat (len - 1) = unat len - 1" by (rule unat_minus_one [OF len0])
  have "unat a + unat (len - 1) < 2 ^ LENGTH(64)" using l1 len nowrap by simp
  then have "unat (a + (len - 1)) = unat a + unat (len - 1)"
    by (simp only: unat_add_lem)
  then have ep: "unat (a + len - 1) = unat a + unat len - 1"
    using l1 len by (simp add: add_diff_eq)
  show e: "unat endi = (unat a + unat len - 1) div 2 ^ sh"
    by (simp add: endi_def unat_drop_bit_eq drop_bit_nat_def ep)
  show le: "unat base \<le> unat endi"
    unfolding b e by (rule div_le_mono) (use len in simp)
  then have sub: "unat (endi - base) = unat endi - unat base"
    by (simp add: unat_sub word_le_nat_alt)
  have bound: "unat endi - unat base + 1 < 2 ^ 64"
  proof (cases "sh = 0")
    case True
    then have "unat endi - unat base + 1 = unat len" using len by (simp add: b e)
    then show ?thesis using unsigned_less [of len, where 'a = nat] by simp
  next
    case False
    then have "(2::nat) \<le> 2 ^ sh" using self_le_ge2_pow [of 2 sh] by (cases sh) auto
    then have "(unat a + unat len - 1) div 2 ^ sh \<le> (unat a + unat len - 1) div 2"
      by (intro div_le_mono2) auto
    also have "\<dots> \<le> (2 ^ 64 - 1) div 2" using nowrap by (intro div_le_mono) simp
    finally have "unat endi \<le> (2 ^ 64 - 1) div 2" by (simp add: e)
    then show ?thesis by simp
  qed
  have "unat (endi - base) + unat (1 :: size_t) < 2 ^ LENGTH(64)"
    using bound sub by simp
  then have "unat (endi - base + 1) = unat (endi - base) + unat (1 :: size_t)"
    by (simp only: unat_add_lem)
  then show "unat (endi - base + 1) = unat endi - unat base + 1"
    using sub by simp
qed

lemma memset_range_entry:
  fixes base endi i :: size_t
  assumes "unat base \<le> unat endi"
    and "unat (endi - base + 1) = unat endi - unat base + 1"
  shows "memset tbl base c (endi - base + 1) i =
           (if unat base \<le> unat i \<and> unat i \<le> unat endi then ucast c else tbl i)"
proof -
  have e: "unat endi < 2 ^ 64" using unsigned_less [of endi, where 'a = nat] by simp
  have "(unat (i - base) < unat endi - unat base + 1) =
          (unat base \<le> unat i \<and> unat i \<le> unat endi)"
    using assms(1) e by (auto simp: unat_sub_if')
  then show ?thesis by (simp add: memset_entry assms(2))
qed

lemma SetDirtyRegion_entries:
  assumes "0 < unat len" and "unat a + unat len \<le> 2 ^ 64"
    and "\<not> (checked \<and> a = 0)"
  shows "SoftwareWriteWatchSetDirtyRegion checked sh tbl a len =
           Inr (\<lambda>i. if page_intersects sh i a len then 0xFF else tbl i)"
proof -
  note idx = region_indices [OF assms(1,2)]
  have "memset tbl (drop_bit sh a) (NOT 0) (drop_bit sh (a + len - 1) - drop_bit sh a + 1) i =
          (if page_intersects sh i a len then 0xFF else tbl i)" for i
    using memset_range_entry [OF idx(4) idx(3), where tbl = tbl and c = "NOT 0" and i = i]
    by (simp only: page_intersects_iff [OF assms(1)] idx(1,2) ucast_NOT_0)
  then have "memset tbl (drop_bit sh a) (NOT 0) (drop_bit sh (a + len - 1) - drop_bit sh a + 1) =
          (\<lambda>i. if page_intersects sh i a len then 0xFF else tbl i)"
    by (rule ext)
  then show ?thesis
    using assms(3) by (simp add: SoftwareWriteWatchSetDirtyRegion_def Let_def)
qed

lemma ucast_minus_1: "(ucast (- 1 :: int32) :: uint8_t) = 0xFF"
  by (simp add: unsigned_minus_1_eq_mask mask_eq_exp_minus_1)

lemma memset_one: "memset tbl start c 1 = tbl(start := ucast c)"
  by (simp add: memset_def)

lemma SetDirtyRegion_one_page:
  assumes "drop_bit sh (a + len - 1) = drop_bit sh a" and "\<not> (checked \<and> a = 0)"
  shows "SoftwareWriteWatchSetDirtyRegion checked sh tbl a len = Inr (tbl(drop_bit sh a := 0xFF))"
  using assms
  by (simp add: SoftwareWriteWatchSetDirtyRegion_def Let_def memset_one ucast_minus_1)

text \<open>
  Claim C4, as amended. For every address and every length \<open>len \<ge> 1\<close> such that the
  range \<open>[address, address + len)\<close> lies inside the address space,
  \<open>SoftwareWriteWatchSetDirtyRegion\<close> sets to \<open>0xFF\<close> exactly the entries of the pages
  that intersect the range and modifies no other entry. When moreover the range lies on
  one page and the entry of that page is \<open>0\<close> or \<open>0xFF\<close> beforehand, the table it
  returns is the table that \<open>SoftwareWriteWatchSetDirty\<close> returns for an address on
  that page.
\<close>

theorem SoftwareWriteWatchSetDirtyRegion_marks_intersecting_pages:
  assumes "0 < unat len" and "unat address + unat len \<le> 2 ^ 64"
    and "\<not> (checked \<and> address = 0)"
  shows "SoftwareWriteWatchSetDirtyRegion checked shift tbl address len =
           Inr (\<lambda>i. if page_intersects shift i address len then 0xFF else tbl i) \<and>
         (drop_bit shift (address + len - 1) = drop_bit shift address \<and>
          drop_bit shift address' = drop_bit shift address \<and>
          (tbl (drop_bit shift address) = 0 \<or> tbl (drop_bit shift address) = 0xFF) \<and>
          SoftwareWriteWatchSetDirty checked' shift tbl address' write_size = Inr t
          \<longrightarrow> SoftwareWriteWatchSetDirtyRegion checked shift tbl address len = Inr t)"
proof (intro conjI impI)
  show "SoftwareWriteWatchSetDirtyRegion checked shift tbl address len =
           Inr (\<lambda>i. if page_intersects shift i address len then 0xFF else tbl i)"
    by (rule SetDirtyRegion_entries [OF assms])
next
  assume h: "drop_bit shift (address + len - 1) = drop_bit shift address \<and>
          drop_bit shift address' = drop_bit shift address \<and>
          (tbl (drop_bit shift address) = 0 \<or> tbl (drop_bit shift address) = 0xFF) \<and>
          SoftwareWriteWatchSetDirty checked' shift tbl address' write_size = Inr t"
  then have t: "t = (if tbl (drop_bit shift address) = 0
                     then tbl(drop_bit shift address := 0xFF) else tbl)"
    using SetDirty_Inr [of checked' shift tbl address' write_size t] by simp
  have "tbl(drop_bit shift address := 0xFF) = t"
    using h t by (auto simp: fun_upd_idem_iff)
  then show "SoftwareWriteWatchSetDirtyRegion checked shift tbl address len = Inr t"
    using SetDirtyRegion_one_page [of shift address len checked tbl] h assms(3) by simp
qed

lemma page_intersects_example:
  "\<not> page_intersects 12 4 0x5000 0x3000" "page_intersects 12 5 0x5000 0x3000"
  "page_intersects 12 6 0x5000 0x3000" "page_intersects 12 7 0x5000 0x3000"
  "\<not> page_intersects 12 8 0x5000 0x3000"
  by (simp_all add: page_intersects_def page_range_def Int_atLeastLessThan)

theorem SoftwareWriteWatchSetDirtyRegion_marks_intersecting_pages_witness:
  "0 < unat (0x3000 :: size_t) \<and>
   unat (0x5000 :: addr) + unat (0x3000 :: size_t) \<le> 2 ^ 64 \<and>
   \<not> (True \<and> (0x5000 :: addr) = 0) \<and>
   (\<exists>t. SoftwareWriteWatchSetDirtyRegion True 12 clean_table 0x5000 0x3000 = Inr t \<and>
        t 4 = 0 \<and> t 5 = 0xFF \<and> t 6 = 0xFF \<and> t 7 = 0xFF \<and> t 8 = 0) \<and>
   drop_bit 12 (0x5000 + 0x1000 - 1 :: addr) = drop_bit 12 (0x5000 :: addr) \<and>
   drop_bit 12 (0x5008 :: addr) = drop_bit 12 (0x5000 :: addr) \<and>
   clean_table (drop_bit 12 (0x5000 :: addr)) = 0 \<and>
   SoftwareWriteWatchSetDirty True 12 clean_table 0x5008 8 = Inr (clean_table(5 := 0xFF)) \<and>
   SoftwareWriteWatchSetDirtyRegion True 12 clean_table 0x5000 0x1000 = Inr (clean_table(5 := 0xFF))"
proof -
  have d: "drop_bit 12 (0x5000 + 0x1000 - 1 :: addr) = 5" "drop_bit 12 (0x5000 :: addr) = 5"
     "drop_bit 12 (0x5008 :: addr) = 5" "drop_bit 12 (0x5008 + (8 - 1) :: addr) = 5"
    by (simp_all add: drop_bit_eq_div)
  have sd: "SoftwareWriteWatchSetDirty True 12 clean_table 0x5008 8 = Inr (clean_table(5 := 0xFF))"
    by (simp add: SoftwareWriteWatchSetDirty_def Let_def d clean_table_def)
  have c: "clean_table (drop_bit 12 (0x5000 :: addr)) = 0" by (simp add: clean_table_def)
  have 1: "SoftwareWriteWatchSetDirtyRegion True 12 clean_table 0x5000 0x3000 =
           Inr (\<lambda>i. if page_intersects 12 i 0x5000 0x3000 then 0xFF else clean_table i)"
    using SoftwareWriteWatchSetDirtyRegion_marks_intersecting_pages
            [where len = "0x3000" and address = "0x5000" and checked = True and tbl = clean_table
               and shift = 12]
    by simp
  have 2: "SoftwareWriteWatchSetDirtyRegion True 12 clean_table 0x5000 0x1000 = Inr (clean_table(5 := 0xFF))"
    using SoftwareWriteWatchSetDirtyRegion_marks_intersecting_pages
            [where len = "0x1000" and address = "0x5000" and checked = True and tbl = clean_table
               and shift = 12 and address' = "0x5008" and checked' = True and write_size = 8
               and t = "clean_table(5 := 0xFF)", THEN conjunct2] d sd c
    by simp
  show ?thesis
    using 1 2 sd c d by (simp add: page_intersects_example clean_table_def)
qed

text \<open>
  Claim C4 as stated fails in two ways. With \<open>len = 0\<close> and an address that is not the
  first of its page, the range is empty and intersects no page, yet the entry of the
  address's page is set. And on a page whose entry holds a nonzero value other than
  \<open>0xFF\<close>, a call for a range that spans exactly that page stores \<open>0xFF\<close>, whereas
  \<open>SoftwareWriteWatchSetDirty\<close> leaves the entry as it is.
\<close>

theorem SoftwareWriteWatchSetDirtyRegion_counterexample:
  "SoftwareWriteWatchSetDirtyRegion False 12 clean_table 0x5001 0 = Inr (clean_table(5 := 0xFF)) \<and>
   \<not> page_intersects 12 5 0x5001 0 \<and>
   clean_table 5 \<noteq> 0xFF \<and>
   SoftwareWriteWatchSetDirtyRegion False 12 (clean_table(5 := 1)) 0x5000 0x1000 = Inr (clean_table(5 := 0xFF)) \<and>
   SoftwareWriteWatchSetDirty False 12 (clean_table(5 := 1)) 0x5000 8 = Inr (clean_table(5 := 1)) \<and>
   (clean_table(5 := 0xFF)) 5 \<noteq> (clean_table(5 := 1)) 5"
proof -
  have d: "drop_bit 12 (0x5001 + 0 - 1 :: addr) = 5" "drop_bit 12 (0x5001 :: addr) = 5"
     "drop_bit 12 (0x5000 + 0x1000 - 1 :: addr) = 5" "drop_bit 12 (0x5000 :: addr) = 5"
    by (simp_all add: drop_bit_eq_div)
  show ?thesis
    by (simp add: SoftwareWriteWatchSetDirtyRegion_def SoftwareWriteWatchSetDirty_def Let_def d
        memset_one ucast_minus_1 page_intersects_def page_range_def clean_table_def)
qed

section \<open>Properties of the assembler macros\<close>

lemmas machine_simps = read_reg_def write_reg_def store_def

text \<open>
  Claim C6. \<open>INLINE_THREAD_UNHIJACK\<close>, given three distinct registers of which the two
  trash registers are not \<^verbatim>\<open>xzr\<close>, leaves memory (the thread's hijack record and the
  stack slot included) as it is when the saved return address
  \<^verbatim>\<open>m_pvHijackedReturnAddress\<close> is null. Otherwise it stores the saved return address
  into the cell that \<^verbatim>\<open>m_ppvHijackedReturnAddressLocation\<close> points to, then stores zero
  into both fields of the record: afterwards both fields are zero, and the slot (a cell
  other than the two fields) holds the saved return address.
\<close>

theorem INLINE_THREAD_UNHIJACK_restores_and_clears:
  fixes s :: machine and offRA offLoc :: "64 word" and threadReg trashReg1 trashReg2 :: reg
  assumes "trashReg1 \<noteq> XZR" and "trashReg2 \<noteq> XZR" and "trashReg1 \<noteq> trashReg2"
    and "threadReg \<noteq> trashReg1" and "threadReg \<noteq> trashReg2"
  defines "thread \<equiv> read_reg s threadReg"
  defines "ra \<equiv> mem s (thread + offRA)"
  defines "loc \<equiv> mem s (thread + offLoc)"
  defines "s' \<equiv> exec (INLINE_THREAD_UNHIJACK offRA offLoc threadReg trashReg1 trashReg2) s"
  shows "(ra = 0 \<longrightarrow> mem s' = mem s) \<and>
         (ra \<noteq> 0 \<longrightarrow>
            mem s' = (mem s)(loc := ra, thread + offLoc := 0, thread + offRA := 0) \<and>
            mem s' (thread + offRA) = 0 \<and> mem s' (thread + offLoc) = 0 \<and>
            (loc \<noteq> thread + offRA \<and> loc \<noteq> thread + offLoc \<longrightarrow> mem s' loc = ra))"
  using assms(1-5)
  unfolding thread_def ra_def loc_def s'_def INLINE_THREAD_UNHIJACK_def
  by (auto simp: machine_simps)

theorem INLINE_THREAD_UNHIJACK_restores_and_clears_witness:
  "X 1 \<noteq> XZR \<and> X 2 \<noteq> XZR \<and> X 1 \<noteq> X 2 \<and> X 0 \<noteq> X 1 \<and> X 0 \<noteq> X 2 \<and>
   mem hijacked_thread (read_reg hijacked_thread (X 0) + 0x10) \<noteq> 0 \<and>
   mem (exec (INLINE_THREAD_UNHIJACK 0x10 0x18 (X 0) (X 1) (X 2)) hijacked_thread) 0x8000 = 0xAAAA \<and>
   mem (exec (INLINE_THREAD_UNHIJACK 0x10 0x18 (X 0) (X 1) (X 2)) hijacked_thread) 0x1010 = 0 \<and>
   mem (exec (INLINE_THREAD_UNHIJACK 0x10 0x18 (X 0) (X 1) (X 2)) hijacked_thread) 0x1018 = 0 \<and>
   mem unhijacked_thread (read_reg unhijacked_thread (X 0) + 0x10) = 0 \<and>
   mem (exec (INLINE_THREAD_UNHIJACK 0x10 0x18 (X 0) (X 1) (X 2)) unhijacked_thread) =
     mem unhijacked_thread"
  using INLINE_THREAD_UNHIJACK_restores_and_clears
          [of "X 1" "X 2" "X 0" hijacked_thread "0x10" "0x18"]
        INLINE_THREAD_UNHIJACK_restores_and_clears
          [of "X 1" "X 2" "X 0" unhijacked_thread "0x10" "0x18"]
  by (simp add: read_reg_def hijacked_thread_def unhijacked_thread_def)

text \<open>
  Claim C7. \<open>PUSH_COOP_PINVOKE_FRAME\<close>, for every general register as \<open>trashReg\<close>, moves
  \<^verbatim>\<open>sp\<close> down by \<open>0x80\<close> and leaves in the frame at the new \<^verbatim>\<open>sp\<close>: \<^verbatim>\<open>fp\<close> and
  \<^verbatim>\<open>lr\<close> at offsets \<open>0\<close> and \<open>8\<close>, the registers \<^verbatim>\<open>x19\<close> to \<^verbatim>\<open>x28\<close> as they were at
  entry at offsets \<open>0x20\<close> to \<open>0x68\<close>, the value \<^verbatim>\<open>sp\<close> had at entry at offset \<open>0x70\<close>,
  and in the flags slot at offset \<open>0x18\<close> the mask \<open>DEFAULT_FRAME_SAVE_FLAGS\<close>, which is
  \<open>PTFF_SAVE_ALL_PRESERVED + PTFF_SAVE_SP\<close>; \<open>PTFF_SAVE_ALL_PRESERVED\<close> is \<open>0x3FF\<close>, the
  union of the ten bits \<open>PTFF_SAVE_X19\<close> to \<open>PTFF_SAVE_X28\<close>. On exit \<open>trashReg\<close> holds
  the address of the frame.
\<close>

theorem PUSH_COOP_PINVOKE_FRAME_saves_registers_and_flags:
  fixes s :: machine and n :: nat
  defines "frame \<equiv> regs s SP - 0x80"
  defines "s' \<equiv> exec (PUSH_COOP_PINVOKE_FRAME (X n)) s"
  shows "regs s' SP = frame \<and> regs s' (X n) = frame \<and>
         mem s' frame = regs s fp \<and> mem s' (frame + 0x08) = regs s lr \<and>
         mem s' (frame + 0x20) = regs s (X 19) \<and> mem s' (frame + 0x28) = regs s (X 20) \<and>
         mem s' (frame + 0x30) = regs s (X 21) \<and> mem s' (frame + 0x38) = regs s (X 22) \<and>
         mem s' (frame + 0x40) = regs s (X 23) \<and> mem s' (frame + 0x48) = regs s (X 24) \<and>
         mem s' (frame + 0x50) = regs s (X 25) \<and> mem s' (frame + 0x58) = regs s (X 26) \<and>
         mem s' (frame + 0x60) = regs s (X 27) \<and> mem s' (frame + 0x68) = regs s (X 28) \<and>
         mem s' (frame + 0x70) = regs s SP \<and>
         mem s' (frame + 0x18) = DEFAULT_FRAME_SAVE_FLAGS \<and>
         DEFAULT_FRAME_SAVE_FLAGS = PTFF_SAVE_ALL_PRESERVED + PTFF_SAVE_SP \<and>
         PTFF_SAVE_ALL_PRESERVED = 0x3FF \<and>
         PTFF_SAVE_ALL_PRESERVED =
           PTFF_SAVE_X19 OR PTFF_SAVE_X20 OR PTFF_SAVE_X21 OR PTFF_SAVE_X22 OR PTFF_SAVE_X23 OR
           PTFF_SAVE_X24 OR PTFF_SAVE_X25 OR PTFF_SAVE_X26 OR PTFF_SAVE_X27 OR PTFF_SAVE_X28"
  unfolding frame_def s'_def PUSH_COOP_PINVOKE_FRAME_def
  by (simp add: machine_simps Let_def fp_def lr_def DEFAULT_FRAME_SAVE_FLAGS_def
      PTFF_SAVE_ALL_PRESERVED_def PTFF_SAVE_SP_def
      PTFF_SAVE_X19_def PTFF_SAVE_X20_def PTFF_SAVE_X21_def PTFF_SAVE_X22_def PTFF_SAVE_X23_def
      PTFF_SAVE_X24_def PTFF_SAVE_X25_def PTFF_SAVE_X26_def PTFF_SAVE_X27_def PTFF_SAVE_X28_def)

theorem PUSH_COOP_PINVOKE_FRAME_saves_registers_and_flags_witness:
  "regs (exec (PUSH_COOP_PINVOKE_FRAME (X 9)) helper_entry) SP = 0x8F80 \<and>
   regs (exec (PUSH_COOP_PINVOKE_FRAME (X 9)) helper_entry) (X 9) = 0x8F80 \<and>
   mem (exec (PUSH_COOP_PINVOKE_FRAME (X 9)) helper_entry) 0x8F80 = 0x29 \<and>
   mem (exec (PUSH_COOP_PINVOKE_FRAME (X 9)) helper_entry) 0x8F88 = 0x30 \<and>
   mem (exec (PUSH_COOP_PINVOKE_FRAME (X 9)) helper_entry) 0x8FA0 = 0x19 \<and>
   mem (exec (PUSH_COOP_PINVOKE_FRAME (X 9)) helper_entry) 0x8FE8 = 0x28 \<and>
   mem (exec (PUSH_COOP_PINVOKE_FRAME (X 9)) helper_entry) 0x8FF0 = 0x9000 \<and>
   mem (exec (PUSH_COOP_PINVOKE_FRAME (X 9)) helper_entry) 0x8F98 = 0x7FF"
proof -
  have r: "regs helper_entry SP = 0x9000" "regs helper_entry (X 19) = 0x19"
    "regs helper_entry (X 28) = 0x28" "regs helper_entry fp = 0x29" "regs helper_entry lr = 0x30"
    by (simp_all add: helper_entry_def fp_def lr_def)
  show ?thesis
    using PUSH_COOP_PINVOKE_FRAME_saves_registers_and_flags [where n = 9 and s = helper_entry]
    by (simp add: r DEFAULT_FRAME_SAVE_FLAGS_def PTFF_SAVE_ALL_PRESERVED_def PTFF_SAVE_SP_def)
qed

end
